theory Spec2Isabelle
  imports Main "HOL-Library.Sublist" "HOL-Library.Multiset"
begin

section \<open>JavaScript strings and values\<close>

text \<open>
  Strings are byte lists. \<open>includes_str s sub\<close> is \<^verbatim>\<open>s.includes(sub)\<close>: \<open>sub\<close> occurs in
  \<open>s\<close> as a contiguous block; the test is case-sensitive.
\<close>

fun includes_str :: "string \<Rightarrow> string \<Rightarrow> bool" where
  "includes_str [] sub = (sub = [])"
| "includes_str (c # cs) sub = (prefix sub (c # cs) \<or> includes_str cs sub)"

text \<open>
  \<^verbatim>\<open>String.prototype.toLowerCase\<close> on ASCII: the letters A to Z are mapped to a to z and every
  other byte is kept. (Outside ASCII, JavaScript lowers other letters too; none of them becomes
  a letter of a supported export format.)
\<close>

definition lower_char :: "char \<Rightarrow> char" where
  "lower_char c =
     (case map_of (zip ''ABCDEFGHIJKLMNOPQRSTUVWXYZ'' ''abcdefghijklmnopqrstuvwxyz'') c of
        None \<Rightarrow> c | Some l \<Rightarrow> l)"

definition toLowerCase :: "string \<Rightarrow> string" where
  "toLowerCase s = map lower_char s"

text \<open>\<^verbatim>\<open>Array.prototype.join\<close> on an array of strings.\<close>

fun join :: "string \<Rightarrow> string list \<Rightarrow> string" where
  "join sep [] = []"
| "join sep [x] = x"
| "join sep (x # y # ys) = x @ sep @ join sep (y # ys)"

text \<open>\<^verbatim>\<open>String(n)\<close> for an integer \<open>n\<close>: its decimal digits.\<close>

fun string_of_nat :: "nat \<Rightarrow> string" where
  "string_of_nat n =
     (if n < 10 then [''0123456789'' ! n]
      else string_of_nat (n div 10) @ [''0123456789'' ! (n mod 10)])"

definition string_of_int :: "int \<Rightarrow> string" where
  "string_of_int i =
     (if i < 0 then CHR ''-'' # string_of_nat (nat (- i)) else string_of_nat (nat i))"

text \<open>
  The values \<^verbatim>\<open>JSON.parse\<close> can return (numbers restricted to integers). An object is the
  list of its members in the order of the text; a later member with the same key wins.
\<close>

datatype json =
    JNull
  | JBool bool
  | JNum int
  | JStr string
  | JArr "json list"
  | JObj "(string \<times> json) list"

text \<open>Truthiness, as \<^verbatim>\<open>||\<close> tests it.\<close>

fun truthy :: "json \<Rightarrow> bool" where
  "truthy JNull = False"
| "truthy (JBool b) = b"
| "truthy (JNum n) = (n \<noteq> 0)"
| "truthy (JStr s) = (s \<noteq> [])"
| "truthy (JArr xs) = True"
| "truthy (JObj kvs) = True"

text \<open>
  \<^verbatim>\<open>a || b\<close> where \<open>a\<close> may be \<^verbatim>\<open>undefined\<close> (\<open>None\<close>): the left operand when it is truthy,
  the right one otherwise.
\<close>

definition or_else :: "json option \<Rightarrow> json \<Rightarrow> json" where
  "or_else a b = (case a of None \<Rightarrow> b | Some v \<Rightarrow> if truthy v then v else b)"

text \<open>
  The string conversion that \<^verbatim>\<open>new Error(v)\<close> applies to its argument: a string is itself,
  an array is its elements joined by commas (\<^verbatim>\<open>null\<close> elements as the empty string), an object
  is \<^verbatim>\<open>[object Object]\<close>.
\<close>

fun ToString :: "json \<Rightarrow> string"
  and element_strings :: "json list \<Rightarrow> string list" where
  "ToString JNull = ''null''"
| "ToString (JBool b) = (if b then ''true'' else ''false'')"
| "ToString (JNum n) = string_of_int n"
| "ToString (JStr s) = s"
| "ToString (JArr xs) = join '','' (element_strings xs)"
| "ToString (JObj kvs) = ''[object Object]''"
| "element_strings [] = []"
| "element_strings (x # xs) = (if x = JNull then [] else ToString x) # element_strings xs"

section \<open>The HTTP client seen by the services\<close>

record File =
  name :: string
  type :: string
  content :: string

datatype form_value = FFile File | FString string

text \<open>
  One call \<^verbatim>\<open>axiosInstance.post(url, formData, config)\<close>: the URL, the entries appended to the
  \<^verbatim>\<open>FormData\<close> in order, and the \<^verbatim>\<open>responseType\<close> and \<^verbatim>\<open>headers\<close> of the config.
\<close>

record request =
  url :: string
  formData :: "(string \<times> form_value) list"
  responseType :: string
  headers :: "(string \<times> string) list"

text \<open>
  \<^verbatim>\<open>response.data\<close>: a \<^verbatim>\<open>Blob\<close> with its MIME type and the text that \<^verbatim>\<open>.text()\<close> resolves to,
  or a value that is not a \<^verbatim>\<open>Blob\<close>.
\<close>

datatype body = Blob string string | NotBlob json

record axios_response =
  status :: nat
  content_type :: "string option"
  data :: body

text \<open>
  What a \<^verbatim>\<open>catch\<close> clause receives: the \<^verbatim>\<open>message\<close> of the error and, for an error of the
  HTTP client that came with a response of the server, that \<^verbatim>\<open>response\<close>.
\<close>

record js_error =
  message :: string
  response :: "axios_response option"

text \<open>
  \<^verbatim>\<open>await axiosInstance.post(...)\<close> either resolves with a response or rejects with an error.
  The module \<^verbatim>\<open>axiosInstance\<close> is not part of the sources at hand, so the services take its
  \<^verbatim>\<open>post\<close> as a parameter of this type; \<^verbatim>\<open>JSON.parse\<close> is a parameter too, with \<open>Inl m\<close> for
  a \<^verbatim>\<open>SyntaxError\<close> of message \<open>m\<close>.
\<close>

datatype outcome = Resolved axios_response | Rejected js_error

type_synonym http_post = "request \<Rightarrow> outcome"
type_synonym json_parse = "string \<Rightarrow> string + json"

definition new_Error :: "json \<Rightarrow> js_error" where
  "new_Error v = \<lparr>message = ToString v, response = None\<rparr>"

definition TypeError :: "string \<Rightarrow> js_error" where
  "TypeError m = \<lparr>message = m, response = None\<rparr>"

definition SyntaxError :: "string \<Rightarrow> js_error" where
  "SyntaxError m = \<lparr>message = m, response = None\<rparr>"

text \<open>\<^verbatim>\<open>try { body } catch (e) { handler }\<close>: an error of the body goes to the handler.\<close>

definition try_catch :: "('e + 'a) \<Rightarrow> ('e \<Rightarrow> 'e + 'a) \<Rightarrow> 'e + 'a" where
  "try_catch body handler = (case body of Inl e \<Rightarrow> handler e | Inr v \<Rightarrow> Inr v)"

text \<open>
  \<^verbatim>\<open>errorJson.detail\<close>: reading a property of \<^verbatim>\<open>null\<close> throws a \<^verbatim>\<open>TypeError\<close>, an object
  yields its member or \<^verbatim>\<open>undefined\<close>, and the other values have no such property.
  \<^verbatim>\<open>data?.detail\<close> is the same, except that \<^verbatim>\<open>null\<close> yields \<^verbatim>\<open>undefined\<close>.
\<close>

definition detail :: "json \<Rightarrow> js_error + json option" where
  "detail j =
     (case j of
        JNull \<Rightarrow> Inl (TypeError ''Cannot read properties of null'')
      | JObj kvs \<Rightarrow> Inr (map_of (rev kvs) ''detail'')
      | _ \<Rightarrow> Inr None)"

definition optional_detail :: "body \<Rightarrow> json option" where
  "optional_detail d =
     (case d of
        NotBlob (JObj kvs) \<Rightarrow> map_of (rev kvs) ''detail''
      | _ \<Rightarrow> None)"

section \<open>pdfService.ts\<close>

definition API_PREFIX :: string where
  "API_PREFIX = ''/api/v1''"

text \<open>
  The three statements
  \<^verbatim>\<open>errorText = await data.text(); errorJson = JSON.parse(errorText); throw new Error(errorJson.detail || fallback)\<close>,
  which every operation has twice: after a resolved response of JSON content type, and in
  its \<^verbatim>\<open>catch\<close> clause. They always end in an error.
\<close>

definition throw_detail :: "json_parse \<Rightarrow> string \<Rightarrow> body \<Rightarrow> js_error + body" where
  "throw_detail parse fallback d =
     (case d of
        NotBlob v \<Rightarrow> Inl (TypeError ''response.data.text is not a function'')
      | Blob mime errorText \<Rightarrow>
          (case parse errorText of
             Inl m \<Rightarrow> Inl (SyntaxError m)
           | Inr errorJson \<Rightarrow>
               (case detail errorJson of
                  Inl e \<Rightarrow> Inl e
                | Inr v \<Rightarrow> Inl (new_Error (or_else v (JStr fallback))))))"

text \<open>
  The statements after \<^verbatim>\<open>await axiosInstance.post(...)\<close> inside the \<^verbatim>\<open>try\<close>: the content type
  of the response decides between a JSON error and the payload.
\<close>

definition check_response :: "json_parse \<Rightarrow> string \<Rightarrow> axios_response \<Rightarrow> js_error + body" where
  "check_response parse fallback r =
     (if (case content_type r of
            None \<Rightarrow> False
          | Some contentType \<Rightarrow> contentType \<noteq> [] \<and> includes_str contentType ''application/json'')
      then throw_detail parse fallback (data r)
      else Inr (data r))"

text \<open>
  The \<^verbatim>\<open>catch (error)\<close> clause of an operation. The inner \<^verbatim>\<open>try\<close> holds the \<^verbatim>\<open>throw\<close> of the
  server's detail, and the inner \<^verbatim>\<open>catch (e)\<close> replaces whatever the inner \<^verbatim>\<open>try\<close> threw
  by the fallback message.
\<close>

definition catch_clause :: "json_parse \<Rightarrow> string \<Rightarrow> js_error \<Rightarrow> js_error + body" where
  "catch_clause parse fallback error =
     (let last_throw =
            Inl (new_Error
              (or_else (case response error of None \<Rightarrow> None | Some r \<Rightarrow> optional_detail (data r))
                 (or_else (Some (JStr (message error))) (JStr fallback))))
      in case response error of
           None \<Rightarrow> last_throw
         | Some r \<Rightarrow>
             (case data r of
                NotBlob v \<Rightarrow> last_throw
              | Blob mime errorText \<Rightarrow>
                  (case try_catch (throw_detail parse fallback (data r))
                          (\<lambda>e. Inl (new_Error (JStr fallback))) of
                     Inl e \<Rightarrow> Inl e
                   | Inr v \<Rightarrow> last_throw)))"

text \<open>The \<^verbatim>\<open>try\<close>/\<^verbatim>\<open>catch\<close> statement of an operation, applied to what the POST came to.\<close>

definition await_post :: "json_parse \<Rightarrow> string \<Rightarrow> outcome \<Rightarrow> js_error + body" where
  "await_post parse fallback out =
     try_catch
       (case out of
          Rejected error \<Rightarrow> Inl error
        | Resolved r \<Rightarrow> check_response parse fallback r)
       (catch_clause parse fallback)"

text \<open>
  An operation returns the POST requests it issued (none or one) and its result: the error
  it throws (\<open>Inl\<close>) or the payload it returns (\<open>Inr\<close>). The calls of \<^verbatim>\<open>console\<close> are left out.
\<close>

type_synonym operation_result = "request list \<times> (js_error + body)"

definition compress :: "json_parse \<Rightarrow> http_post \<Rightarrow> File \<Rightarrow> int \<Rightarrow> operation_result" where
  "compress parse post file level =
     (if \<not> includes_str (type file) ''pdf''
      then ([], Inl (new_Error (JStr ''Invalid file type. Please select a PDF file.'')))
      else
        let req = \<lparr>url = API_PREFIX @ ''/pdf/compress'',
                   formData = [(''file'', FFile file),
                               (''compression_level'', FString (string_of_int level))],
                   responseType = ''blob'',
                   headers = [(''Accept'', ''application/pdf, application/json'')]\<rparr>
        in ([req], await_post parse ''Failed to compress PDF'' (post req)))"

definition merge :: "json_parse \<Rightarrow> http_post \<Rightarrow> File list \<Rightarrow> operation_result" where
  "merge parse post files =
     (if length files < 2
      then ([], Inl (new_Error (JStr ''At least two PDF files are required for merging'')))
      else
        let req = \<lparr>url = API_PREFIX @ ''/pdf/merge'',
                   formData = map (\<lambda>file. (''files'', FFile file)) files,
                   responseType = ''blob'',
                   headers = [(''Accept'', ''application/pdf, application/json'')]\<rparr>
        in ([req], await_post parse ''Failed to merge PDFs'' (post req)))"

text \<open>\<open>operations\<close> is the text \<^verbatim>\<open>JSON.stringify(operations)\<close>.\<close>

definition preview :: "json_parse \<Rightarrow> http_post \<Rightarrow> File \<Rightarrow> string \<Rightarrow> operation_result" where
  "preview parse post file operations =
     (let req = \<lparr>url = API_PREFIX @ ''/pdf/preview'',
                 formData = [(''file'', FFile file), (''operations'', FString operations)],
                 responseType = ''blob'',
                 headers = [(''Accept'', ''application/pdf, application/json'')]\<rparr>
      in ([req], await_post parse ''Failed to preview PDF'' (post req)))"

definition convert :: "json_parse \<Rightarrow> http_post \<Rightarrow> File \<Rightarrow> operation_result" where
  "convert parse post file =
     (if type file = ''application/pdf''
      then ([], Inl (new_Error
             (JStr ''File is already a PDF. Please select a different format to convert.'')))
      else
        let req = \<lparr>url = API_PREFIX @ ''/pdf/convert'',
                   formData = [(''file'', FFile file)],
                   responseType = ''blob'',
                   headers = [(''Accept'', ''application/pdf, application/json''),
                              (''Content-Type'', ''multipart/form-data'')]\<rparr>
        in ([req], await_post parse ''Failed to convert file to PDF'' (post req)))"

definition supportedFormats :: "string list" where
  "supportedFormats = [''xlsx'', ''txt'', ''html'', ''png'', ''jpg'', ''jpeg'']"

text \<open>The second argument is optional: \<open>None\<close> is a call without it, and the default applies.\<close>

definition export :: "json_parse \<Rightarrow> http_post \<Rightarrow> File \<Rightarrow> string option \<Rightarrow> operation_result" where
  "export parse post file format_arg =
     (let format = (case format_arg of None \<Rightarrow> ''docx'' | Some f \<Rightarrow> f)
      in if \<not> includes_str (type file) ''pdf''
         then ([], Inl (new_Error (JStr ''Invalid file type. Please select a PDF file.'')))
         else if \<not> List.member supportedFormats (toLowerCase format)
         then ([], Inl (new_Error (JStr
                 (''Unsupported format: '' @ format @ ''. Supported formats are: ''
                    @ join '', '' supportedFormats))))
         else
           let req = \<lparr>url = API_PREFIX @ ''/pdf/export'',
                      formData = [(''file'', FFile file),
                                  (''format'', FString (toLowerCase format))],
                      responseType = ''blob'',
                      headers = [(''Accept'', ''*/*'')]\<rparr>
           in ([req], await_post parse ''Failed to export PDF'' (post req)))"

section \<open>authService\<close>

record User =
  user_id :: string
  user_email :: string
  user_name :: string

record SessionData =
  token :: string
  expiryTime :: int
  user :: User

text \<open>
  What \<^verbatim>\<open>localStorage\<close> holds under a key: the text \<^verbatim>\<open>JSON.stringify(sessionData)\<close> written by
  \<open>setSession\<close>, which \<^verbatim>\<open>JSON.parse\<close> reads back as the same \<open>SessionData\<close>; the empty string;
  or a text on which \<^verbatim>\<open>JSON.parse\<close> or the destructuring throws.
\<close>

datatype stored = Item SessionData | Empty | Malformed

text \<open>
  The two variables of \<^verbatim>\<open>import.meta.env\<close> that the class reads: \<open>None\<close> when unset or
  empty, else the key, and the number that \<^verbatim>\<open>Number(...)\<close> makes of the expiry (in seconds).
\<close>

record env =
  VITE_TOKEN_KEY :: "string option"
  VITE_TOKEN_EXPIRY :: "int option"

definition TOKEN_KEY :: "env \<Rightarrow> string" where
  "TOKEN_KEY e = (case VITE_TOKEN_KEY e of None \<Rightarrow> ''pdf_manager_auth_token'' | Some k \<Rightarrow> k)"

definition SESSION_DURATION :: "env \<Rightarrow> int" where
  "SESSION_DURATION e = (case VITE_TOKEN_EXPIRY e of None \<Rightarrow> 86400 | Some n \<Rightarrow> n) * 1000"

text \<open>
  The state that the service changes: the browser's \<^verbatim>\<open>localStorage\<close> and the default
  \<^verbatim>\<open>Authorization\<close> header of the HTTP client.
\<close>

record client =
  localStorage :: "string \<rightharpoonup> stored"
  Authorization :: "string option"

text \<open>\<open>now\<close> is the value of \<^verbatim>\<open>new Date().getTime()\<close> (milliseconds) at the call.\<close>

definition setSession :: "env \<Rightarrow> int \<Rightarrow> string \<Rightarrow> User \<Rightarrow> client \<Rightarrow> client" where
  "setSession e now tok u c =
     (let expiry = now + SESSION_DURATION e;
          sessionData = \<lparr>token = tok, expiryTime = expiry, user = u\<rparr>
      in c\<lparr>localStorage := (localStorage c)(TOKEN_KEY e \<mapsto> Item sessionData),
           Authorization := Some (''Bearer '' @ tok)\<rparr>)"

definition clearSession :: "env \<Rightarrow> client \<Rightarrow> client" where
  "clearSession e c =
     c\<lparr>localStorage := (localStorage c)(TOKEN_KEY e := None), Authorization := None\<rparr>"

text \<open>
  \<open>getSession\<close> reads the clock twice: \<open>now_read\<close> in the expiry test and \<open>now_write\<close> in
  the \<open>setSession\<close> that refreshes the entry.
\<close>

definition getSession :: "env \<Rightarrow> int \<Rightarrow> int \<Rightarrow> client \<Rightarrow> (string \<times> User) option \<times> client" where
  "getSession e now_read now_write c =
     (case localStorage c (TOKEN_KEY e) of
        None \<Rightarrow> (None, c)
      | Some Empty \<Rightarrow> (None, c)
      | Some Malformed \<Rightarrow> (None, clearSession e c)
      | Some (Item s) \<Rightarrow>
          if now_read > expiryTime s then (None, clearSession e c)
          else (Some (token s, user s), setSession e now_write (token s) (user s) c))"

definition isAuthenticated :: "env \<Rightarrow> int \<Rightarrow> int \<Rightarrow> client \<Rightarrow> bool \<times> client" where
  "isAuthenticated e now_read now_write c =
     (case getSession e now_read now_write c of (s, c') \<Rightarrow> (s \<noteq> None, c'))"

definition logout :: "env \<Rightarrow> client \<Rightarrow> client" where
  "logout e c = clearSession e c"

text \<open>
  The two endpoints that \<open>login\<close> calls: \<^verbatim>\<open>POST /api/v1/auth/token\<close> with the credentials,
  answering the \<^verbatim>\<open>access_token\<close>, and \<^verbatim>\<open>GET /api/v1/auth/me\<close> with the bearer token, answering
  the user.
\<close>

record auth_server =
  auth_token :: "string \<Rightarrow> string \<Rightarrow> js_error + string"
  auth_me :: "string \<Rightarrow> js_error + User"

definition validateToken :: "env \<Rightarrow> auth_server \<Rightarrow> string \<Rightarrow> client \<Rightarrow> (js_error + User) \<times> client" where
  "validateToken e srv tok c =
     (case auth_me srv tok of
        Inl error \<Rightarrow> (Inl error, clearSession e c)
      | Inr u \<Rightarrow> (Inr u, c))"

definition login ::
  "env \<Rightarrow> auth_server \<Rightarrow> int \<Rightarrow> string \<Rightarrow> string \<Rightarrow> client \<Rightarrow> (js_error + string \<times> User) \<times> client" where
  "login e srv now username password c =
     (case auth_token srv username password of
        Inl error \<Rightarrow> (Inl error, c)
      | Inr tok \<Rightarrow>
          (case validateToken e srv tok c of
             (Inl error, c') \<Rightarrow> (Inl error, c')
           | (Inr u, c') \<Rightarrow> (Inr (tok, u), setSession e now tok u c')))"

section \<open>Dashboard: reordering the files selected for a merge\<close>

text \<open>
  \<^verbatim>\<open>Array.prototype.splice(start, deleteCount, ...items)\<close> on integer arguments: a negative
  \<open>start\<close> counts from the end, a \<open>start\<close> beyond the end is the end, and no more elements
  are deleted than remain after the start. The result is the pair of the removed elements
  (what the call returns) and the array after the call (the array is changed in place).
\<close>

definition splice :: "int \<Rightarrow> nat \<Rightarrow> 'a list \<Rightarrow> 'a list \<Rightarrow> 'a list \<times> 'a list" where
  "splice start deleteCount items xs =
     (let len = int (length xs);
          actualStart = nat (if start < 0 then max (len + start) 0 else min start len);
          actualDeleteCount = min deleteCount (length xs - actualStart)
      in (take actualDeleteCount (drop actualStart xs),
          take actualStart xs @ items @ drop (actualStart + actualDeleteCount) xs))"

text \<open>
  \<open>moveFile\<close> of the Dashboard (the updater passed to \<open>setSelectedFiles\<close>). An array element is
  an \<open>option\<close>: \<open>None\<close> is JavaScript's \<open>undefined\<close>, which \<open>const [movedFile] = ...\<close> yields
  when the first splice removed nothing, and which the second splice then inserts.
\<close>

definition moveFile :: "int \<Rightarrow> int \<Rightarrow> 'f option list \<Rightarrow> 'f option list" where
  "moveFile fromIndex toIndex prevFiles =
     (let (removed, newFiles) = splice fromIndex 1 [] prevFiles;
          movedFile = (case removed of [] \<Rightarrow> None | x # _ \<Rightarrow> x)
      in snd (splice toIndex 0 [movedFile] newFiles))"

text \<open>
  The export dialog of the Dashboard: the initial value of the \<open>exportFormat\<close> state, and
  the formats that the dialog offers as buttons. \<open>handleProcessFile\<close> passes the state to
  \<open>export\<close>.
\<close>

definition exportFormat_initial :: string where
  "exportFormat_initial = ''docx''"

definition export_dialog_formats :: "string list" where
  "export_dialog_formats = [''docx'', ''xlsx'', ''txt'', ''html'', ''png'', ''jpg'']"

section \<open>Example values\<close>

definition pdf1 :: File where
  "pdf1 = \<lparr>name = ''a.pdf'', type = ''application/pdf'', content = ''%PDF-1.4 a''\<rparr>"

definition pdf2 :: File where
  "pdf2 = \<lparr>name = ''b.pdf'', type = ''application/pdf'', content = ''%PDF-1.4 b''\<rparr>"

definition txt1 :: File where
  "txt1 = \<lparr>name = ''notes.txt'', type = ''text/plain'', content = ''hello''\<rparr>"

text \<open>A server that answers every request with a PDF.\<close>

definition pdf_response :: axios_response where
  "pdf_response = \<lparr>status = 200, content_type = Some ''application/pdf'',
                    data = Blob ''application/pdf'' ''%PDF-1.4 out''\<rparr>"

definition pdf_server :: http_post where
  "pdf_server req = Resolved pdf_response"

text \<open>
  A server that answers every request with status 400 and a JSON error, which the HTTP
  client delivers as a rejection; and a parser that knows the text of that error.
\<close>

definition error_text :: string where
  \<open>error_text = ''{"detail":"File must be a PDF"}''\<close>

definition parse_example :: json_parse where
  "parse_example s =
     (if s = error_text then Inr (JObj [(''detail'', JStr ''File must be a PDF'')])
      else Inl ''Unexpected token'')"

definition bad_request :: axios_response where
  "bad_request = \<lparr>status = 400, content_type = Some ''application/json'',
                   data = Blob ''application/json'' error_text\<rparr>"

definition rejecting_server :: http_post where
  "rejecting_server req =
     Rejected \<lparr>message = ''Request failed with status code 400'', response = Some bad_request\<rparr>"

definition default_env :: env where
  "default_env = \<lparr>VITE_TOKEN_KEY = None, VITE_TOKEN_EXPIRY = None\<rparr>"

definition alice :: User where
  "alice = \<lparr>user_id = ''1'', user_email = ''alice@example.com'', user_name = ''Alice''\<rparr>"

definition auth_example :: auth_server where
  "auth_example = \<lparr>auth_token = (\<lambda>username password. Inr ''tok1''), auth_me = (\<lambda>tok. Inr alice)\<rparr>"

definition signed_out :: client where
  "signed_out = \<lparr>localStorage = Map.empty, Authorization = None\<rparr>"

text \<open>A server that sends the same JSON error with status 200, which the HTTP client resolves.\<close>

definition json_error_server :: http_post where
  "json_error_server req = Resolved (bad_request\<lparr>status := 200\<rparr>)"

text \<open>The client after a login at time 1000 (one second after the epoch).\<close>

definition signed_in :: client where
  "signed_in = snd (login default_env auth_example 1000 ''alice'' ''secret'' signed_out)"

section \<open>Properties\<close>

subsection \<open>What an operation makes of the server's answer\<close>

lemma await_post_resolved_json:
  assumes "content_type r = Some ct" "includes_str ct ''application/json''"
    and "data r = Blob mime errorText" "parse errorText = Inr (JObj [(''detail'', JStr d)])"
  shows "await_post parse fallback (Resolved r)
           = Inl (new_Error (JStr (if d = [] then fallback else d)))"
proof -
  have ne: "ct \<noteq> []" using assms(2) by auto
  have 1: "check_response parse fallback r
             = Inl (new_Error (JStr (if d = [] then fallback else d)))"
    using assms ne
    by (simp add: check_response_def throw_detail_def detail_def or_else_def)
  show ?thesis
    by (simp add: await_post_def try_catch_def 1 catch_clause_def new_Error_def
        optional_detail_def or_else_def)
qed

lemma await_post_resolved_binary:
  assumes "content_type r = None
         \<or> (\<exists>ct. content_type r = Some ct \<and> \<not> includes_str ct ''application/json'')"
  shows "await_post parse fallback (Resolved r) = Inr (data r)"
  using assms by (auto simp: await_post_def try_catch_def check_response_def)

lemma throw_detail_throws: "\<exists>e. throw_detail parse fallback d = Inl e"
  by (simp add: throw_detail_def split: body.splits sum.splits)

lemma catch_clause_blob:
  assumes "response error = Some r" "data r = Blob mime errorText"
  shows "catch_clause parse fallback error = Inl (new_Error (JStr fallback))"
proof -
  obtain e where "throw_detail parse fallback (data r) = Inl e"
    using throw_detail_throws by blast
  then show ?thesis
    using assms by (simp add: catch_clause_def try_catch_def Let_def)
qed

lemma await_post_rejected_blob:
  assumes "response error = Some r" "data r = Blob mime errorText"
  shows "await_post parse fallback (Rejected error) = Inl (new_Error (JStr fallback))"
  using catch_clause_blob [OF assms] by (simp add: await_post_def try_catch_def)

text \<open>
  C1. A response of JSON content type makes the operation raise an error that carries the
  \<open>detail\<close> of its body. Evaluated on the answer that the server gives to a bad request
  (status 400, content type \<^verbatim>\<open>application/json\<close>, a body with the detail
  \<^verbatim>\<open>File must be a PDF\<close>), which reaches \<open>compress\<close> as a rejection of the POST: the error
  that \<open>compress\<close> raises has the fallback message and not the detail, because the \<^verbatim>\<open>throw\<close>
  of the detail sits inside the inner \<^verbatim>\<open>try\<close> of the \<^verbatim>\<open>catch\<close> clause.
\<close>

theorem compress_rejection_drops_detail:
  "snd (compress parse_example rejecting_server pdf1 2)
     = Inl \<lparr>message = ''Failed to compress PDF'', response = None\<rparr>"
  by (simp add: compress_def pdf1_def rejecting_server_def bad_request_def
      await_post_rejected_blob new_Error_def)

text \<open>The same answer, when the HTTP client resolves it, does give an error with the detail.\<close>

lemma compress_resolved_json_keeps_detail:
  "snd (compress parse_example json_error_server pdf1 2)
     = Inl \<lparr>message = ''File must be a PDF'', response = None\<rparr>"
proof -
  have "await_post parse_example ''Failed to compress PDF'' (Resolved (bad_request\<lparr>status := 200\<rparr>))
          = Inl (new_Error (JStr ''File must be a PDF''))"
    using await_post_resolved_json [where r = "bad_request\<lparr>status := 200\<rparr>" and ct = "''application/json''"
        and mime = "''application/json''" and errorText = error_text and parse = parse_example
        and d = "''File must be a PDF''" and fallback = "''Failed to compress PDF''"]
    by (simp add: bad_request_def parse_example_def)
  then show ?thesis
    by (simp add: compress_def pdf1_def json_error_server_def new_Error_def)
qed

subsection \<open>compress\<close>

text \<open>
  C8. For a file whose declared type does not include \<^verbatim>\<open>pdf\<close>, \<open>compress\<close> issues no request
  and fails with an error whose message mentions PDF.
\<close>

theorem compress_rejects_non_pdf:
  "\<not> includes_str (type f) ''pdf'' \<Longrightarrow>
     compress parse post f level =
       ([], Inl \<lparr>message = ''Invalid file type. Please select a PDF file.'', response = None\<rparr>)
     \<and> includes_str ''Invalid file type. Please select a PDF file.'' ''PDF''"
  by (simp add: compress_def new_Error_def)

theorem compress_rejects_non_pdf_witness:
  "compress parse_example pdf_server txt1 2 =
     ([], Inl \<lparr>message = ''Invalid file type. Please select a PDF file.'', response = None\<rparr>)"
  using compress_rejects_non_pdf [where f = txt1 and parse = parse_example and post = pdf_server and level = 2]
  by (simp add: txt1_def)




subsection \<open>merge\<close>

text \<open>
  C2. With fewer than two files \<open>merge\<close> issues no request and fails with the message that at
  least two files are required; with two or more files it issues exactly one POST, to the
  merge endpoint, and its result is what the answer of \<open>post\<close> to that request gives.
\<close>

theorem merge_minimum_files:
  "(length files < 2 \<longrightarrow>
      merge parse post files =
        ([], Inl \<lparr>message = ''At least two PDF files are required for merging'',
                   response = None\<rparr>))
   \<and> (2 \<le> length files \<longrightarrow>
        merge parse post files =
          (let req = \<lparr>url = ''/api/v1/pdf/merge'',
                      formData = map (\<lambda>file. (''files'', FFile file)) files,
                      responseType = ''blob'',
                      headers = [(''Accept'', ''application/pdf, application/json'')]\<rparr>
           in ([req], await_post parse ''Failed to merge PDFs'' (post req))))"
  by (simp add: merge_def new_Error_def API_PREFIX_def Let_def)

theorem merge_minimum_files_witness:
  "merge parse_example pdf_server [pdf1] =
     ([], Inl \<lparr>message = ''At least two PDF files are required for merging'', response = None\<rparr>)
   \<and> merge parse_example pdf_server [pdf1, pdf2] =
     ([\<lparr>url = ''/api/v1/pdf/merge'',
        formData = [(''files'', FFile pdf1), (''files'', FFile pdf2)],
        responseType = ''blob'',
        headers = [(''Accept'', ''application/pdf, application/json'')]\<rparr>],
      Inr (Blob ''application/pdf'' ''%PDF-1.4 out''))
   \<and> snd (merge parse_example rejecting_server [pdf1, pdf2]) =
     Inl \<lparr>message = ''Failed to merge PDFs'', response = None\<rparr>"
  using merge_minimum_files [where files = "[pdf1]" and parse = parse_example and post = pdf_server]
    merge_minimum_files [where files = "[pdf1, pdf2]" and parse = parse_example and post = pdf_server]
    merge_minimum_files [where files = "[pdf1, pdf2]" and parse = parse_example
      and post = rejecting_server]
  by (simp add: Let_def pdf_server_def pdf_response_def rejecting_server_def bad_request_def
      await_post_def check_response_def try_catch_def catch_clause_blob new_Error_def)

text \<open>
  C3. The body of the merge request has the files and a \<^verbatim>\<open>merge_order\<close> field. Evaluated on
  two files: the form of the request that \<open>merge\<close> sends has two fields, both named
  \<^verbatim>\<open>files\<close>, and no \<^verbatim>\<open>merge_order\<close>.
\<close>

theorem merge_request_has_no_merge_order:
  "map (map fst \<circ> formData) (fst (merge parse_example pdf_server [pdf1, pdf2]))
     = [[''files'', ''files'']]"
  by (simp add: merge_def Let_def)

text \<open>In general the form is one \<^verbatim>\<open>files\<close> field per file, in the order of the list.\<close>

lemma merge_request_body:
  "2 \<le> length files \<Longrightarrow>
     map formData (fst (merge parse post files)) = [map (\<lambda>file. (''files'', FFile file)) files]"
  by (simp add: merge_def Let_def)

subsection \<open>convert\<close>

text \<open>
  C5. For a file whose declared type is \<^verbatim>\<open>application/pdf\<close>, \<open>convert\<close> issues no request
  and fails with an error; for a file of any other declared type it issues the request to
  the convert endpoint, with the file, and its result is what the answer of \<open>post\<close> to that
  request gives.
\<close>

theorem convert_rejects_pdf:
  "(type f = ''application/pdf'' \<longrightarrow>
      convert parse post f =
        ([], Inl \<lparr>message = ''File is already a PDF. Please select a different format to convert.'',
                   response = None\<rparr>))
   \<and> (type f \<noteq> ''application/pdf'' \<longrightarrow>
        convert parse post f =
          (let req = \<lparr>url = ''/api/v1/pdf/convert'',
                      formData = [(''file'', FFile f)],
                      responseType = ''blob'',
                      headers = [(''Accept'', ''application/pdf, application/json''),
                                 (''Content-Type'', ''multipart/form-data'')]\<rparr>
           in ([req], await_post parse ''Failed to convert file to PDF'' (post req))))"
  by (simp add: convert_def new_Error_def API_PREFIX_def Let_def)

theorem convert_rejects_pdf_witness:
  "convert parse_example pdf_server pdf1 =
     ([], Inl \<lparr>message = ''File is already a PDF. Please select a different format to convert.'',
                response = None\<rparr>)
   \<and> convert parse_example pdf_server txt1 =
     ([\<lparr>url = ''/api/v1/pdf/convert'',
        formData = [(''file'', FFile txt1)],
        responseType = ''blob'',
        headers = [(''Accept'', ''application/pdf, application/json''),
                   (''Content-Type'', ''multipart/form-data'')]\<rparr>],
      Inr (Blob ''application/pdf'' ''%PDF-1.4 out''))
   \<and> snd (convert parse_example rejecting_server txt1) =
     Inl \<lparr>message = ''Failed to convert file to PDF'', response = None\<rparr>"
  using convert_rejects_pdf [where f = pdf1 and parse = parse_example and post = pdf_server]
    convert_rejects_pdf [where f = txt1 and parse = parse_example and post = pdf_server]
    convert_rejects_pdf [where f = txt1 and parse = parse_example and post = rejecting_server]
  by (simp add: pdf1_def txt1_def Let_def pdf_server_def pdf_response_def rejecting_server_def
      bad_request_def await_post_def check_response_def try_catch_def catch_clause_blob
      new_Error_def)

subsection \<open>export\<close>

lemma includes_str_prefix: "prefix sub s \<Longrightarrow> includes_str s sub"
  by (cases s) auto

lemma includes_str_middle: "includes_str (a @ b @ c) b"
  by (induction a) (auto simp: includes_str_prefix)

lemma supported_list: "join '', '' supportedFormats = ''xlsx, txt, html, png, jpg, jpeg''"
  by (simp add: supportedFormats_def)

text \<open>
  Against C4 as stated: \<^verbatim>\<open>pptx\<close> is outside the supported set, and for a text file the error
  of \<open>export\<close> is the one of the file type test, whose message does not name the format.
\<close>

theorem export_non_pdf_hides_format:
  "export parse_example pdf_server txt1 (Some ''pptx'') =
     ([], Inl \<lparr>message = ''Invalid file type. Please select a PDF file.'', response = None\<rparr>)
   \<and> \<not> List.member supportedFormats (toLowerCase ''pptx'')
   \<and> \<not> includes_str ''Invalid file type. Please select a PDF file.'' ''pptx''"
  by (simp add: export_def txt1_def new_Error_def supportedFormats_def toLowerCase_def
      lower_char_def)

text \<open>
  C4 (amended). For a file whose declared type includes \<^verbatim>\<open>pdf\<close> and a format whose lower-case
  form is outside the supported set, \<open>export\<close> issues no request and fails with the message
  \<^verbatim>\<open>Unsupported format: \<close> followed by the format as given and the list of supported formats,
  a message that names the format. For a file whose declared type does not include \<^verbatim>\<open>pdf\<close>
  it issues no request and fails with the message of the file type test, whatever the
  format. Two formats with the same lower-case form are both rejected before a request or
  both not: the membership test is case-insensitive.
\<close>

theorem export_unsupported_format:
  "(includes_str (type f) ''pdf'' \<and> \<not> List.member supportedFormats (toLowerCase format) \<longrightarrow>
      export parse post f (Some format) =
        ([], Inl \<lparr>message = ''Unsupported format: '' @ format
                     @ ''. Supported formats are: xlsx, txt, html, png, jpg, jpeg'',
                   response = None\<rparr>))
   \<and> includes_str (''Unsupported format: '' @ format
        @ ''. Supported formats are: xlsx, txt, html, png, jpg, jpeg'') format
   \<and> (\<not> includes_str (type f) ''pdf'' \<longrightarrow>
        export parse post f (Some format) =
          ([], Inl \<lparr>message = ''Invalid file type. Please select a PDF file.'', response = None\<rparr>))
   \<and> (toLowerCase format = toLowerCase format' \<longrightarrow>
        (fst (export parse post f (Some format)) = [])
          = (fst (export parse post f (Some format')) = []))"
proof -
  have 1: "includes_str (''Unsupported format: '' @ format
        @ ''. Supported formats are: xlsx, txt, html, png, jpg, jpeg'') format"
    by (rule includes_str_middle)
  have 2: "includes_str (type f) ''pdf'' \<and> \<not> List.member supportedFormats (toLowerCase format) \<longrightarrow>
      export parse post f (Some format) =
        ([], Inl \<lparr>message = ''Unsupported format: '' @ format
                     @ ''. Supported formats are: xlsx, txt, html, png, jpg, jpeg'',
                   response = None\<rparr>)"
    by (simp add: export_def new_Error_def supported_list)
  have 3: "\<not> includes_str (type f) ''pdf'' \<longrightarrow>
        export parse post f (Some format) =
          ([], Inl \<lparr>message = ''Invalid file type. Please select a PDF file.'', response = None\<rparr>)"
    by (simp add: export_def new_Error_def)
  have 4: "toLowerCase format = toLowerCase format' \<longrightarrow>
        (fst (export parse post f (Some format)) = [])
          = (fst (export parse post f (Some format')) = [])"
    by (simp add: export_def Let_def)
  show ?thesis using 1 2 3 4 by blast
qed

theorem export_unsupported_format_witness:
  "export parse_example pdf_server pdf1 (Some ''PPTX'') =
     ([], Inl \<lparr>message = ''Unsupported format: PPTX. Supported formats are: xlsx, txt, html, png, jpg, jpeg'',
                response = None\<rparr>)
   \<and> export parse_example pdf_server txt1 (Some ''PPTX'') =
     ([], Inl \<lparr>message = ''Invalid file type. Please select a PDF file.'', response = None\<rparr>)
   \<and> fst (export parse_example pdf_server pdf1 (Some ''pptx'')) = []"
  using export_unsupported_format [where f = pdf1 and format = "''PPTX''" and format' = "''pptx''"
      and parse = parse_example and post = pdf_server]
    export_unsupported_format [where f = txt1 and format = "''PPTX''" and format' = "''pptx''"
      and parse = parse_example and post = pdf_server]
  by (auto simp: pdf1_def txt1_def supportedFormats_def toLowerCase_def lower_char_def)

text \<open>
  Against C9 as stated: for a text file, \<open>export\<close> with the format \<^verbatim>\<open>docx\<close> fails with the error
  of the file type test, which is not an \<^verbatim>\<open>Unsupported format: docx\<close> error.
\<close>

theorem export_docx_non_pdf:
  "export parse_example pdf_server txt1 (Some ''docx'') =
     ([], Inl \<lparr>message = ''Invalid file type. Please select a PDF file.'', response = None\<rparr>)
   \<and> \<not> includes_str ''Invalid file type. Please select a PDF file.'' ''Unsupported format: docx''"
  by (simp add: export_def txt1_def new_Error_def)

text \<open>
  C9 (amended). \<^verbatim>\<open>docx\<close> is the default of the format argument of \<open>export\<close>, the initial export
  format of the Dashboard and one of the formats of the export dialog, and it is not in the
  list of supported formats. A call of \<open>export\<close> with it always fails before any request is
  sent: with the \<^verbatim>\<open>Unsupported format: docx\<close> error for a file whose declared type includes
  \<^verbatim>\<open>pdf\<close>, and with the error of the file type test for any other file.
\<close>

theorem export_docx_always_fails:
  "export parse post f None = export parse post f (Some ''docx'')
   \<and> export parse post f (Some exportFormat_initial) = export parse post f (Some ''docx'')
   \<and> List.member export_dialog_formats ''docx''
   \<and> \<not> List.member supportedFormats ''docx''
   \<and> export parse post f (Some ''docx'') =
       ([], Inl \<lparr>message =
                   (if includes_str (type f) ''pdf''
                    then ''Unsupported format: docx. Supported formats are: xlsx, txt, html, png, jpg, jpeg''
                    else ''Invalid file type. Please select a PDF file.''),
                 response = None\<rparr>)"
  by (simp add: export_def exportFormat_initial_def export_dialog_formats_def
      supportedFormats_def toLowerCase_def lower_char_def new_Error_def)

theorem export_docx_always_fails_witness:
  "export parse_example pdf_server pdf1 None =
     ([], Inl \<lparr>message = ''Unsupported format: docx. Supported formats are: xlsx, txt, html, png, jpg, jpeg'',
                response = None\<rparr>)
   \<and> export parse_example pdf_server txt1 None =
     ([], Inl \<lparr>message = ''Invalid file type. Please select a PDF file.'', response = None\<rparr>)"
  using export_docx_always_fails [where f = pdf1 and parse = parse_example and post = pdf_server]
    export_docx_always_fails [where f = txt1 and parse = parse_example and post = pdf_server]
  by (simp add: pdf1_def txt1_def)

subsection \<open>The session\<close>

lemma setSession_entry:
  "localStorage (setSession e now tok u c) (TOKEN_KEY e)
     = Some (Item \<lparr>token = tok, expiryTime = now + SESSION_DURATION e, user = u\<rparr>)"
  by (simp add: setSession_def Let_def)

lemma clearSession_entry: "localStorage (clearSession e c) (TOKEN_KEY e) = None"
  by (simp add: clearSession_def)

lemma login_stores:
  assumes "auth_token srv username password = Inr tok" "auth_me srv tok = Inr u"
  shows "login e srv now username password c = (Inr (tok, u), setSession e now tok u c)"
  using assms by (simp add: login_def validateToken_def)

text \<open>
  C6. A successful login stores the entry with the token, the user and the expiry time
  \<open>now + SESSION_DURATION\<close>, where \<open>now\<close> is the time of storage and the duration is the
  configured number of seconds (86400 when none is configured) in milliseconds. Reading an
  entry that has not expired returns its token and user and stores the entry again with the
  expiry time counted from the time of that write. Reading an entry after its expiry time
  returns nothing and deletes the entry.
\<close>

theorem session_lifecycle:
  "(auth_token srv username password = Inr tok \<and> auth_me srv tok = Inr u \<longrightarrow>
      fst (login e srv now username password c) = Inr (tok, u)
      \<and> localStorage (snd (login e srv now username password c)) (TOKEN_KEY e)
          = Some (Item \<lparr>token = tok, expiryTime = now + SESSION_DURATION e, user = u\<rparr>))
   \<and> SESSION_DURATION \<lparr>VITE_TOKEN_KEY = k, VITE_TOKEN_EXPIRY = None\<rparr> = 86400 * 1000
   \<and> SESSION_DURATION \<lparr>VITE_TOKEN_KEY = k, VITE_TOKEN_EXPIRY = Some seconds\<rparr> = seconds * 1000
   \<and> (localStorage c (TOKEN_KEY e) = Some (Item s) \<and> now_read \<le> expiryTime s \<longrightarrow>
        fst (getSession e now_read now_write c) = Some (token s, user s)
        \<and> localStorage (snd (getSession e now_read now_write c)) (TOKEN_KEY e)
            = Some (Item \<lparr>token = token s, expiryTime = now_write + SESSION_DURATION e,
                           user = user s\<rparr>))
   \<and> (localStorage c (TOKEN_KEY e) = Some (Item s) \<and> expiryTime s < now_read \<longrightarrow>
        fst (getSession e now_read now_write c) = None
        \<and> localStorage (snd (getSession e now_read now_write c)) (TOKEN_KEY e) = None)"
proof -
  have 1: "auth_token srv username password = Inr tok \<and> auth_me srv tok = Inr u \<longrightarrow>
      fst (login e srv now username password c) = Inr (tok, u)
      \<and> localStorage (snd (login e srv now username password c)) (TOKEN_KEY e)
          = Some (Item \<lparr>token = tok, expiryTime = now + SESSION_DURATION e, user = u\<rparr>)"
    by (simp add: login_stores setSession_entry)
  have 2: "SESSION_DURATION \<lparr>VITE_TOKEN_KEY = k, VITE_TOKEN_EXPIRY = None\<rparr> = 86400 * 1000"
    by (simp add: SESSION_DURATION_def)
  have 3: "SESSION_DURATION \<lparr>VITE_TOKEN_KEY = k, VITE_TOKEN_EXPIRY = Some seconds\<rparr> = seconds * 1000"
    by (simp add: SESSION_DURATION_def)
  have 4: "localStorage c (TOKEN_KEY e) = Some (Item s) \<and> now_read \<le> expiryTime s \<longrightarrow>
        fst (getSession e now_read now_write c) = Some (token s, user s)
        \<and> localStorage (snd (getSession e now_read now_write c)) (TOKEN_KEY e)
            = Some (Item \<lparr>token = token s, expiryTime = now_write + SESSION_DURATION e,
                           user = user s\<rparr>)"
    by (simp add: getSession_def setSession_entry)
  have 5: "localStorage c (TOKEN_KEY e) = Some (Item s) \<and> expiryTime s < now_read \<longrightarrow>
        fst (getSession e now_read now_write c) = None
        \<and> localStorage (snd (getSession e now_read now_write c)) (TOKEN_KEY e) = None"
    by (simp add: getSession_def clearSession_entry)
  show ?thesis using 1 2 3 4 5 by blast
qed

lemma signed_in_entry:
  "localStorage signed_in ''pdf_manager_auth_token''
     = Some (Item \<lparr>token = ''tok1'', expiryTime = 86401000, user = alice\<rparr>)"
  by (simp add: signed_in_def login_def validateToken_def auth_example_def setSession_def
      default_env_def TOKEN_KEY_def SESSION_DURATION_def Let_def)

theorem session_lifecycle_witness:
  "localStorage (snd (login default_env auth_example 1000 ''alice'' ''secret'' signed_out))
      ''pdf_manager_auth_token''
     = Some (Item \<lparr>token = ''tok1'', expiryTime = 86401000, user = alice\<rparr>)
   \<and> fst (getSession default_env 5000 5001 signed_in) = Some (''tok1'', alice)
   \<and> localStorage (snd (getSession default_env 5000 5001 signed_in)) ''pdf_manager_auth_token''
       = Some (Item \<lparr>token = ''tok1'', expiryTime = 86405001, user = alice\<rparr>)
   \<and> fst (getSession default_env 86401001 86401002 signed_in) = None
   \<and> localStorage (snd (getSession default_env 86401001 86401002 signed_in))
        ''pdf_manager_auth_token'' = None"
proof -
  have key: "TOKEN_KEY default_env = ''pdf_manager_auth_token''"
    by (simp add: TOKEN_KEY_def default_env_def)
  have dur: "SESSION_DURATION default_env = 86400000"
    by (simp add: SESSION_DURATION_def default_env_def)
  have srv: "auth_token auth_example ''alice'' ''secret'' = Inr ''tok1''"
    "auth_me auth_example ''tok1'' = Inr alice"
    by (simp_all add: auth_example_def)
  note a = session_lifecycle [where e = default_env and srv = auth_example and now = 1000
      and username = "''alice''" and password = "''secret''" and c = signed_out
      and tok = "''tok1''" and u = alice]
  note b = session_lifecycle [where e = default_env and c = signed_in
      and s = "\<lparr>token = ''tok1'', expiryTime = 86401000, user = alice\<rparr>"
      and now_read = 5000 and now_write = 5001]
  note d = session_lifecycle [where e = default_env and c = signed_in
      and s = "\<lparr>token = ''tok1'', expiryTime = 86401000, user = alice\<rparr>"
      and now_read = 86401001 and now_write = 86401002]
  have 1: "localStorage (snd (login default_env auth_example 1000 ''alice'' ''secret'' signed_out))
      ''pdf_manager_auth_token''
     = Some (Item \<lparr>token = ''tok1'', expiryTime = 86401000, user = alice\<rparr>)"
    using a srv by (simp add: key dur)
  have 2: "fst (getSession default_env 5000 5001 signed_in) = Some (''tok1'', alice)
   \<and> localStorage (snd (getSession default_env 5000 5001 signed_in)) ''pdf_manager_auth_token''
       = Some (Item \<lparr>token = ''tok1'', expiryTime = 86405001, user = alice\<rparr>)"
    using b signed_in_entry by (simp add: key dur)
  have 3: "fst (getSession default_env 86401001 86401002 signed_in) = None
   \<and> localStorage (snd (getSession default_env 86401001 86401002 signed_in))
        ''pdf_manager_auth_token'' = None"
    using d signed_in_entry by (simp add: key dur)
  show ?thesis using 1 2 3 by blast
qed

subsection \<open>Reordering the selected files\<close>

lemma splice_in_range:
  assumes "0 \<le> start" "start \<le> int (length xs)"
  shows "splice start n items xs =
     (take (min n (length xs - nat start)) (drop (nat start) xs),
      take (nat start) xs @ items @ drop (nat start + min n (length xs - nat start)) xs)"
proof -
  have "nat (min start (int (length xs))) = nat start" using assms by simp
  then show ?thesis using assms by (simp add: splice_def Let_def)
qed

lemma take_one_of_drop:
  assumes "i < length xs"
  shows "take (min 1 (length xs - i)) (drop i xs) = [xs ! i]"
proof -
  have "min 1 (length xs - i) = 1" using assms by simp
  moreover have "take 1 (drop i xs) = [xs ! i]"
    using assms by (simp add: take_Suc_conv_app_nth)
  ultimately show ?thesis by simp
qed

lemma moveFile_in_range:
  assumes "0 \<le> fromIndex" "fromIndex < int (length xs)" "0 \<le> toIndex" "toIndex < int (length xs)"
  shows "moveFile fromIndex toIndex xs =
           take (nat toIndex) (take (nat fromIndex) xs @ drop (Suc (nat fromIndex)) xs)
           @ [xs ! nat fromIndex]
           @ drop (nat toIndex) (take (nat fromIndex) xs @ drop (Suc (nat fromIndex)) xs)"
proof -
  let ?ys = "take (nat fromIndex) xs @ drop (Suc (nat fromIndex)) xs"
  have f: "nat fromIndex < length xs" using assms by linarith
  have t: "nat toIndex < length xs" using assms by linarith
  have m: "min 1 (length xs - nat fromIndex) = 1" using f by simp
  have a: "splice fromIndex 1 [] xs = ([xs ! nat fromIndex], ?ys)"
    using splice_in_range [of fromIndex xs 1 "[]"] take_one_of_drop [OF f] assms(1,2) m by simp
  have len: "length ?ys = length xs - 1" using f by simp
  have t': "toIndex \<le> int (length ?ys)" using t len by linarith
  have b: "snd (splice toIndex 0 [xs ! nat fromIndex] ?ys)
             = take (nat toIndex) ?ys @ [xs ! nat fromIndex] @ drop (nat toIndex) ?ys"
    using splice_in_range [OF assms(3) t', of 0 "[xs ! nat fromIndex]"] by simp
  show ?thesis
    unfolding moveFile_def a using b by simp
qed

text \<open>
  C10. For in-range indices, \<open>moveFile\<close> keeps the length of the selected-files list and its
  multiset of files, and the file that was at \<open>fromIndex\<close> is at \<open>toIndex\<close> afterwards.
\<close>

theorem moveFile_permutes:
  assumes "0 \<le> fromIndex" "fromIndex < int (length xs)" "0 \<le> toIndex" "toIndex < int (length xs)"
  shows "length (moveFile fromIndex toIndex xs) = length xs
       \<and> mset (moveFile fromIndex toIndex xs) = mset xs
       \<and> moveFile fromIndex toIndex xs ! nat toIndex = xs ! nat fromIndex"
proof -
  define ys where "ys = take (nat fromIndex) xs @ drop (Suc (nat fromIndex)) xs"
  define x where "x = xs ! nat fromIndex"
  have f: "nat fromIndex < length xs" using assms by linarith
  have t: "nat toIndex < length xs" using assms by linarith
  have eq: "moveFile fromIndex toIndex xs = take (nat toIndex) ys @ [x] @ drop (nat toIndex) ys"
    unfolding ys_def x_def by (rule moveFile_in_range [OF assms])
  have len: "length ys = length xs - 1" using f by (simp add: ys_def)
  have xs: "xs = take (nat fromIndex) xs @ x # drop (Suc (nat fromIndex)) xs"
    unfolding x_def using f by (rule id_take_nth_drop)
  have m1: "mset xs = mset ys + {#x#}"
    by (subst xs) (simp add: ys_def)
  have m2: "mset (take (nat toIndex) ys) + mset (drop (nat toIndex) ys) = mset ys"
    by (simp only: mset_append [symmetric] append_take_drop_id)
  have l: "length (moveFile fromIndex toIndex xs) = length xs"
    using f len by (simp add: eq)
  have m: "mset (moveFile fromIndex toIndex xs) = mset xs"
    using m2 by (simp add: eq m1)
  have "length (take (nat toIndex) ys) = nat toIndex"
    using t len by simp
  then have n: "moveFile fromIndex toIndex xs ! nat toIndex = x"
    by (simp add: eq nth_append)
  show ?thesis using l m n by (simp add: x_def)
qed

theorem moveFile_permutes_witness:
  "length (moveFile 0 2 [Some ''a.pdf'', Some ''b.pdf'', Some ''c.pdf'']) = 3
   \<and> mset (moveFile 0 2 [Some ''a.pdf'', Some ''b.pdf'', Some ''c.pdf''])
       = mset [Some ''a.pdf'', Some ''b.pdf'', Some ''c.pdf'']
   \<and> moveFile 0 2 [Some ''a.pdf'', Some ''b.pdf'', Some ''c.pdf''] ! 2 = Some ''a.pdf''"
  using moveFile_permutes [of 0 "[Some ''a.pdf'', Some ''b.pdf'', Some ''c.pdf'']" 2]
  by simp

end
